theory Spec2Isabelle
  imports Main
begin

section \<open>Time, errors and the persisted records\<close>

text \<open>
  A \<open>time.Time\<close> is modelled as the instant it denotes: nanoseconds since the Unix
  epoch, an unbounded integer. Durations are Go's: a count of nanoseconds.
\<close>

type_synonym time = int

definition Second :: int where
  "Second = 1000000000"

definition Minute :: int where
  "Minute = 60 * Second"

definition Hour :: int where
  "Hour = 60 * Minute"

text \<open>
  Every error value the modelled code can see. \<open>ErrRecordNotFound\<close> is gorm's;
  \<open>ErrUniqueConstraint\<close> is the store refusing a row that repeats a primary key or a
  column tagged \<open>unique\<close>; the remaining ones are the token library's.
\<close>

datatype error =
    ErrRecordNotFound
  | ErrUniqueConstraint
  | ErrTokenMalformed
  | ErrTokenUnverifiable
  | ErrTokenSignatureInvalid
  | ErrTokenExpired
  | ErrTokenInvalidClaims

text \<open>models/user.go, models/token.go, models/api\_key.go. Go's \<open>uint\<close> is read as a
  natural number: the code never does arithmetic on an identifier.\<close>

record User =
  User_ID :: nat
  User_Username :: string
  User_Email :: string
  User_PasswordHash :: string
  User_Role :: string

record RefreshToken =
  RefreshToken_ID :: nat
  RefreshToken_UserID :: nat
  RefreshToken_Token :: string
  RefreshToken_ExpiryDate :: time

record ApiKey =
  ApiKey_Key :: string
  ApiKey_UserID :: nat
  ApiKey_Client :: string
  ApiKey_Scope :: string
  ApiKey_IsActive :: bool

section \<open>The store behind \<open>config.DB\<close>\<close>

text \<open>
  gorm and the SQLite file behind it are the program's environment: the state the code
  reads and writes, passed through every function here. It is the three migrated tables,
  each a list of rows in storage order. The operations below are the five statements the
  code issues, with the conditions written in the source and the constraints declared by
  the tags of the models. The store is taken to answer: the errors it reports are the two
  that depend on what it holds.
\<close>

record DB =
  users :: "User list"
  refresh_tokens :: "RefreshToken list"
  api_keys :: "ApiKey list"

text \<open>\<open>Where("token = ? AND expiry_date > ?", token, now).First(&oldToken)\<close>: the matching
  row of least primary key, or \<open>ErrRecordNotFound\<close>.\<close>

definition Where_token_First :: "DB \<Rightarrow> string \<Rightarrow> time \<Rightarrow> error + RefreshToken" where
  "Where_token_First db token now =
     (case sort_key RefreshToken_ID
             (filter (\<lambda>r. RefreshToken_Token r = token \<and> RefreshToken_ExpiryDate r > now)
                (refresh_tokens db)) of
        [] \<Rightarrow> Inl ErrRecordNotFound
      | r # _ \<Rightarrow> Inr r)"

text \<open>\<open>First(&user, id)\<close>: the user row whose primary key is \<open>id\<close>.\<close>

definition First_user :: "DB \<Rightarrow> nat \<Rightarrow> error + User" where
  "First_user db uid =
     (case filter (\<lambda>u. User_ID u = uid) (users db) of
        [] \<Rightarrow> Inl ErrRecordNotFound
      | u # _ \<Rightarrow> Inr u)"

text \<open>\<open>Delete(&oldToken)\<close>: deletes by the primary key of the value passed. With a zero
  primary key gorm refuses to delete anything; the code does not read the outcome.\<close>

definition Delete_refresh_token :: "DB \<Rightarrow> RefreshToken \<Rightarrow> DB" where
  "Delete_refresh_token db t =
     (if RefreshToken_ID t = 0 then db
      else db\<lparr>refresh_tokens :=
                 filter (\<lambda>r. RefreshToken_ID r \<noteq> RefreshToken_ID t) (refresh_tokens db)\<rparr>)"

definition next_id :: "RefreshToken list \<Rightarrow> nat" where
  "next_id rows = Suc (fold max (map RefreshToken_ID rows) 0)"

text \<open>\<open>Create(&refreshTokenModel)\<close>: the \<open>unique\<close> tag on \<open>Token\<close> and the primary key
  are enforced; a zero primary key is replaced by a fresh one.\<close>

definition Create_refresh_token :: "DB \<Rightarrow> RefreshToken \<Rightarrow> error + DB" where
  "Create_refresh_token db t =
     (if RefreshToken_Token t \<in> set (map RefreshToken_Token (refresh_tokens db)) then
        Inl ErrUniqueConstraint
      else if RefreshToken_ID t \<noteq> 0
              \<and> RefreshToken_ID t \<in> set (map RefreshToken_ID (refresh_tokens db)) then
        Inl ErrUniqueConstraint
      else
        Inr (db\<lparr>refresh_tokens :=
                   refresh_tokens db @
                     [if RefreshToken_ID t = 0
                      then t\<lparr>RefreshToken_ID := next_id (refresh_tokens db)\<rparr>
                      else t]\<rparr>))"

text \<open>\<open>Where("key = ? AND is_active = ?", key, true).First(&apiKey)\<close>.\<close>

definition Where_key_First :: "DB \<Rightarrow> string \<Rightarrow> error + ApiKey" where
  "Where_key_First db k =
     (case filter (\<lambda>a. ApiKey_Key a = k \<and> ApiKey_IsActive a = True) (api_keys db) of
        [] \<Rightarrow> Inl ErrRecordNotFound
      | a # _ \<Rightarrow> Inr a)"

text \<open>The schema's constraints (the \<open>primaryKey\<close> and \<open>unique\<close> tags of the models):
  every state the store can be in satisfies them. Primary keys handed out by the store
  are never zero.\<close>

definition schema_ok :: "DB \<Rightarrow> bool" where
  "schema_ok db =
     (distinct (map RefreshToken_ID (refresh_tokens db))
      \<and> distinct (map RefreshToken_Token (refresh_tokens db))
      \<and> 0 \<notin> set (map RefreshToken_ID (refresh_tokens db))
      \<and> distinct (map User_ID (users db))
      \<and> distinct (map ApiKey_Key (api_keys db)))"

section \<open>The signed token codec (utils)\<close>

record Claims =
  Claims_UserID :: nat
  Claims_Role :: string
  Claims_ExpiresAt :: "time option"

text \<open>
  Modelled from the spec: the token library \<open>github.com/golang-jwt/jwt/v5\<close> is not part
  of the repository. The spec describes a token as three parts, header, payload and
  signature, the signature being HMAC-SHA256 over header, dot, payload; and
  verification as decoding, recomputing the signature over the received header and
  payload bytes, and rejecting a malformed structure, a signature mismatch, an
  unsupported or altered algorithm field, and \<open>now > expiresAt\<close>, with no leeway.
  What the spec leaves open (the byte-level encodings, the hash function itself, the
  rounding of a numeric date) is a field of the record \<open>jwt\<close>, so every theorem holds
  for whatever the library computes there.
\<close>

record compact_parts =
  signing_input :: string
  alg :: string
  payload :: Claims
  signature :: string

record jwt =
  hmac_sha256 :: "string \<Rightarrow> string \<Rightarrow> string"
  signing_string :: "string \<Rightarrow> Claims \<Rightarrow> string"
  compact :: "string \<Rightarrow> string \<Rightarrow> string"
  decode_compact :: "string \<Rightarrow> compact_parts option"
  NewNumericDate :: "time \<Rightarrow> time"

record Token =
  Token_Method :: string
  Token_Claims :: Claims
  Token_Valid :: bool

definition SigningMethodHS256 :: string where
  "SigningMethodHS256 = ''HS256''"

definition NewWithClaims :: "string \<Rightarrow> Claims \<Rightarrow> Token" where
  "NewWithClaims method claims =
     \<lparr>Token_Method = method, Token_Claims = claims, Token_Valid = False\<rparr>"

text \<open>Modelled from the spec: \<open>token.SignedString(key)\<close>, which is the library's.\<close>

definition SignedString :: "jwt \<Rightarrow> Token \<Rightarrow> string \<Rightarrow> error + string" where
  "SignedString lib token key =
     (let sstr = signing_string lib (Token_Method token) (Token_Claims token)
      in Inr (compact lib sstr (hmac_sha256 lib key sstr)))"

text \<open>Modelled from the spec: \<open>jwt.ParseWithClaims(signedToken, claims, keyFunc)\<close>, which
  is the library's. The checks are the spec's four, in its order.\<close>

definition ParseWithClaims ::
  "jwt \<Rightarrow> time \<Rightarrow> string \<Rightarrow> (Token \<Rightarrow> error + string) \<Rightarrow> error + Token" where
  "ParseWithClaims lib now signedToken keyFunc =
     (case decode_compact lib signedToken of
        None \<Rightarrow> Inl ErrTokenMalformed
      | Some p \<Rightarrow>
          (let token = \<lparr>Token_Method = alg p, Token_Claims = payload p, Token_Valid = False\<rparr>
           in if alg p \<noteq> SigningMethodHS256 then Inl ErrTokenUnverifiable
              else
                (case keyFunc token of
                   Inl err \<Rightarrow> Inl ErrTokenUnverifiable
                 | Inr key \<Rightarrow>
                     if signature p \<noteq> hmac_sha256 lib key (signing_input p) then
                       Inl ErrTokenSignatureInvalid
                     else
                       (case Claims_ExpiresAt (payload p) of
                          None \<Rightarrow> Inr (token\<lparr>Token_Valid := True\<rparr>)
                        | Some e \<Rightarrow>
                            if now > e then Inl ErrTokenExpired
                            else Inr (token\<lparr>Token_Valid := True\<rparr>)))))"

text \<open>utils: \<open>GenerateAccessToken\<close>. \<open>secret\<close> is \<open>os.Getenv("SECRET_KEY")\<close> and \<open>now\<close>
  is \<open>time.Now()\<close>, both as read by this call.\<close>

definition GenerateAccessToken ::
  "jwt \<Rightarrow> string \<Rightarrow> time \<Rightarrow> nat \<Rightarrow> string \<Rightarrow> error + string" where
  "GenerateAccessToken lib secret now userID role =
     (let expirationTime = now + 15 * Minute;
          claims = \<lparr>Claims_UserID = userID, Claims_Role = role,
                    Claims_ExpiresAt = Some (NewNumericDate lib expirationTime)\<rparr>;
          token = NewWithClaims SigningMethodHS256 claims;
          secretKey = secret
      in SignedString lib token secretKey)"

text \<open>utils: \<open>ValidateJWT\<close>.\<close>

definition ValidateJWT :: "jwt \<Rightarrow> string \<Rightarrow> time \<Rightarrow> string \<Rightarrow> error + Claims" where
  "ValidateJWT lib secret now signedToken =
     (case ParseWithClaims lib now signedToken (\<lambda>token. Inr secret) of
        Inl err \<Rightarrow> Inl err
      | Inr token \<Rightarrow>
          if \<not> Token_Valid token then Inl ErrTokenInvalidClaims
          else Inr (Token_Claims token))"

text \<open>
  The one thing the round trip needs of the library's encodings: the token it writes for
  the claims \<open>c\<close> under the key is read back as the parts it was written from.
\<close>

definition reads_back :: "jwt \<Rightarrow> string \<Rightarrow> Claims \<Rightarrow> bool" where
  "reads_back lib key c =
     (let sstr = signing_string lib SigningMethodHS256 c;
          mac = hmac_sha256 lib key sstr
      in decode_compact lib (compact lib sstr mac) =
           Some \<lparr>signing_input = sstr, alg = SigningMethodHS256, payload = c,
                 signature = mac\<rparr>)"

section \<open>Session issuance (services)\<close>

text \<open>
  What one request reads from outside the store: the environment variable, the clock at
  each of its three \<open>time.Now()\<close> calls, and the value \<open>uuid.New().String()\<close> returns.
\<close>

record Env =
  SECRET_KEY :: string
  now_lookup :: time
  now_access :: time
  new_uuid :: string
  now_refresh :: time

text \<open>services: \<open>GenerateAuthToken\<close>. The result pairs the Go return values with the
  store as the call leaves it.\<close>

definition GenerateAuthToken ::
  "jwt \<Rightarrow> Env \<Rightarrow> DB \<Rightarrow> User \<Rightarrow> (error + string \<times> string) \<times> DB" where
  "GenerateAuthToken lib env db user =
     (case GenerateAccessToken lib (SECRET_KEY env) (now_access env)
             (User_ID user) (User_Role user) of
        Inl err \<Rightarrow> (Inl err, db)
      | Inr accessToken \<Rightarrow>
          (let refreshToken = new_uuid env;
               expiry = now_refresh env + 30 * 24 * Hour;
               refreshTokenModel =
                 \<lparr>RefreshToken_ID = 0, RefreshToken_UserID = User_ID user,
                  RefreshToken_Token = refreshToken, RefreshToken_ExpiryDate = expiry\<rparr>
           in case Create_refresh_token db refreshTokenModel of
                Inl err \<Rightarrow> (Inl err, db)
              | Inr db' \<Rightarrow> (Inr (accessToken, refreshToken), db')))"

text \<open>services: \<open>RefreshAndRevokeToken\<close>.\<close>

definition RefreshAndRevokeToken ::
  "jwt \<Rightarrow> Env \<Rightarrow> DB \<Rightarrow> string \<Rightarrow> (error + string \<times> string) \<times> DB" where
  "RefreshAndRevokeToken lib env db oldRefreshToken =
     (case Where_token_First db oldRefreshToken (now_lookup env) of
        Inl err \<Rightarrow> (Inl err, db)
      | Inr oldToken \<Rightarrow>
          (case First_user db (RefreshToken_UserID oldToken) of
             Inl err \<Rightarrow> (Inl err, db)
           | Inr user \<Rightarrow>
               (let db1 = Delete_refresh_token db oldToken
                in case GenerateAuthToken lib env db1 user of
                     (Inl err, db2) \<Rightarrow> (Inl err, db2)
                   | (Inr (accessToken, newRefreshToken), db2) \<Rightarrow>
                       (Inr (accessToken, newRefreshToken), db2))))"

text \<open>
  The same function, one store statement at a time, for requests that run side by side.
  Each request is handled on its own and shares nothing with another but the store;
  the statements of \<open>RefreshAndRevokeToken\<close> are not wrapped in a transaction, so
  another request's statements may run between any two of them. The states name the
  statement to run next, with the local variables it needs.
\<close>

datatype refresh_pc =
    AtLookup
  | AtUser RefreshToken
  | AtDelete RefreshToken User
  | AtIssue User
  | Returned "error + string \<times> string"

fun refresh_step :: "jwt \<Rightarrow> Env \<Rightarrow> string \<Rightarrow> refresh_pc \<Rightarrow> DB \<Rightarrow> refresh_pc \<times> DB" where
  "refresh_step lib env oldRefreshToken AtLookup db =
     (case Where_token_First db oldRefreshToken (now_lookup env) of
        Inl err \<Rightarrow> (Returned (Inl err), db)
      | Inr oldToken \<Rightarrow> (AtUser oldToken, db))"
| "refresh_step lib env oldRefreshToken (AtUser oldToken) db =
     (case First_user db (RefreshToken_UserID oldToken) of
        Inl err \<Rightarrow> (Returned (Inl err), db)
      | Inr user \<Rightarrow> (AtDelete oldToken user, db))"
| "refresh_step lib env oldRefreshToken (AtDelete oldToken user) db =
     (AtIssue user, Delete_refresh_token db oldToken)"
| "refresh_step lib env oldRefreshToken (AtIssue user) db =
     (case GenerateAuthToken lib env db user of
        (Inl err, db2) \<Rightarrow> (Returned (Inl err), db2)
      | (Inr (accessToken, newRefreshToken), db2) \<Rightarrow>
          (Returned (Inr (accessToken, newRefreshToken)), db2))"
| "refresh_step lib env oldRefreshToken (Returned r) db = (Returned r, db)"

text \<open>Two requests with the same refresh-token value, and a schedule saying whose
  statement runs next.\<close>

datatype request = ReqA | ReqB

fun run_two ::
  "jwt \<Rightarrow> Env \<Rightarrow> Env \<Rightarrow> string \<Rightarrow> request list \<Rightarrow> refresh_pc \<times> refresh_pc \<times> DB
     \<Rightarrow> refresh_pc \<times> refresh_pc \<times> DB" where
  "run_two lib envA envB oldRefreshToken [] st = st"
| "run_two lib envA envB oldRefreshToken (ReqA # schedule) (pcA, pcB, db) =
     (case refresh_step lib envA oldRefreshToken pcA db of
        (pcA', db') \<Rightarrow> run_two lib envA envB oldRefreshToken schedule (pcA', pcB, db'))"
| "run_two lib envA envB oldRefreshToken (ReqB # schedule) (pcA, pcB, db) =
     (case refresh_step lib envB oldRefreshToken pcB db of
        (pcB', db') \<Rightarrow> run_two lib envA envB oldRefreshToken schedule (pcA, pcB', db'))"

section \<open>The refresh endpoint (handlers)\<close>

datatype body =
    ErrorBody string
  | TokenBody string string string nat

datatype Response = Response nat body

definition StatusOK :: nat where "StatusOK = 200"
definition StatusBadRequest :: nat where "StatusBadRequest = 400"
definition StatusUnauthorized :: nat where "StatusUnauthorized = 401"
definition StatusInternalServerError :: nat where "StatusInternalServerError = 500"

text \<open>handlers: \<open>RefreshTokenHandler\<close>; \<open>refreshToken\<close> is the form value
  \<open>refresh_token\<close> of the request.\<close>

definition RefreshTokenHandler :: "jwt \<Rightarrow> Env \<Rightarrow> DB \<Rightarrow> string \<Rightarrow> Response \<times> DB" where
  "RefreshTokenHandler lib env db refreshToken =
     (if refreshToken = [] then
        (Response StatusBadRequest (ErrorBody ''Missing refresh token''), db)
      else
        (case RefreshAndRevokeToken lib env db refreshToken of
           (Inl err, db') \<Rightarrow>
             (Response StatusUnauthorized (ErrorBody ''Invalid or expired refresh token''), db')
         | (Inr (accessToken, newRefreshToken), db') \<Rightarrow>
             (Response StatusOK (TokenBody accessToken newRefreshToken ''Bearer'' (15 * 60)),
              db')))"

section \<open>Request authentication (middlewares)\<close>

text \<open>\<open>strings.SplitN(s, sep, n)\<close> for a one-byte separator and \<open>n \<ge> 0\<close>: at most \<open>n\<close>
  pieces, the last one holding the unsplit remainder.\<close>

fun SplitN :: "string \<Rightarrow> char \<Rightarrow> nat \<Rightarrow> string list" where
  "SplitN s sep 0 = []"
| "SplitN s sep (Suc 0) = [s]"
| "SplitN s sep (Suc (Suc n)) =
     (if sep \<in> set s
      then takeWhile (\<lambda>c. c \<noteq> sep) s # SplitN (tl (dropWhile (\<lambda>c. c \<noteq> sep) s)) sep (Suc n)
      else [s])"

definition ToLower :: "char \<Rightarrow> char" where
  "ToLower c =
     (case map_of (zip ''ABCDEFGHIJKLMNOPQRSTUVWXYZ'' ''abcdefghijklmnopqrstuvwxyz'') c of
        Some l \<Rightarrow> l
      | None \<Rightarrow> c)"

text \<open>\<open>strings.EqualFold\<close>, on the ASCII letters: no other code point folds to a letter
  of the literal the code compares with.\<close>

definition EqualFold :: "string \<Rightarrow> string \<Rightarrow> bool" where
  "EqualFold s t = (map ToLower s = map ToLower t)"

datatype local = UintLocal nat | StringLocal string

text \<open>What the middleware does with a request: it either stores locals and calls
  \<open>c.Next()\<close>, or answers itself.\<close>

datatype handled =
    Next "(string \<times> local) list"
  | Answer Response

text \<open>middlewares: \<open>AuthMiddleware\<close>. \<open>Get\<close> is \<open>c.Get\<close>: the value of a request
  header, the empty string when the request has none of that name.\<close>

definition AuthMiddleware ::
  "jwt \<Rightarrow> string \<Rightarrow> time \<Rightarrow> DB \<Rightarrow> (string \<Rightarrow> string) \<Rightarrow> handled" where
  "AuthMiddleware lib secret now db Get =
     (let authHeader = Get ''Authorization'';
          apiKeyHeader = Get ''api-key''
      in
        if authHeader \<noteq> [] then
          (let parts = SplitN authHeader (CHR '' '') 2
           in if length parts \<noteq> 2 \<or> \<not> EqualFold (parts ! 0) ''Bearer'' then
                Answer (Response StatusUnauthorized
                          (ErrorBody ''Invalid or malformed Authorization header''))
              else
                (let tokenString = parts ! 1
                 in case ValidateJWT lib secret now tokenString of
                      Inl err \<Rightarrow>
                        Answer (Response StatusUnauthorized (ErrorBody ''Invalid or expired JWT''))
                    | Inr claims \<Rightarrow>
                        Next [(''userID'', UintLocal (Claims_UserID claims)),
                              (''role'', StringLocal (Claims_Role claims)),
                              (''authType'', StringLocal ''JWT'')]))
        else if apiKeyHeader \<noteq> [] then
          (case Where_key_First db apiKeyHeader of
             Inl err \<Rightarrow>
               if err = ErrRecordNotFound then
                 Answer (Response StatusUnauthorized (ErrorBody ''Invalid or inactive API key''))
               else
                 Answer (Response StatusInternalServerError (ErrorBody ''Internal server error''))
           | Inr apiKey \<Rightarrow>
               Next [(''clientID'', StringLocal (ApiKey_Client apiKey)),
                     (''scope'', StringLocal (ApiKey_Scope apiKey)),
                     (''userID'', UintLocal (ApiKey_UserID apiKey)),
                     (''authType'', StringLocal ''APIKey'')])
        else
          Answer (Response StatusUnauthorized
                    (ErrorBody ''Missing authentication (JWT or API Key)'')))"

text \<open>
  The claim about the header's shape speaks of whitespace-separated tokens. That reading is
  written down here, after the claim's words and not after the code, to be compared with
  what \<open>AuthMiddleware\<close> does: \<open>Fields\<close> is \<open>strings.Fields\<close> on ASCII white space, and a
  header is a bearer header in the claim's sense when it has exactly two fields, the first
  one equal to ``Bearer'' up to case.
\<close>

definition isSpace :: "char \<Rightarrow> bool" where
  "isSpace c = (c \<in> set [CHR '' '', CHR 0x09, CHR 0x0A, CHR 0x0B, CHR 0x0C, CHR 0x0D])"

fun fields_from :: "string \<Rightarrow> string \<Rightarrow> string list" where
  "fields_from w [] = (if w = [] then [] else [w])"
| "fields_from w (c # cs) =
     (if isSpace c then (if w = [] then fields_from [] cs else w # fields_from [] cs)
      else fields_from (w @ [c]) cs)"

definition Fields :: "string \<Rightarrow> string list" where
  "Fields s = fields_from [] s"

definition spec_bearer_header :: "string \<Rightarrow> bool" where
  "spec_bearer_header h =
     (case Fields h of
        [a, b] \<Rightarrow> EqualFold a ''Bearer''
      | _ \<Rightarrow> False)"

text \<open>A request given by its header lines: \<open>Get\<close> of a request with these headers.\<close>

definition Get_of :: "(string \<times> string) list \<Rightarrow> string \<Rightarrow> string" where
  "Get_of headers name = (case map_of headers name of None \<Rightarrow> [] | Some v \<Rightarrow> v)"

section \<open>An instance of the token library for concrete runs\<close>

text \<open>
  The theorems quantify over the library; to run the model on a concrete request one
  instance is fixed here. Its token is \<open>alg.uid,exp,role.mac\<close> with decimal numbers, its
  MAC is the key followed by the message, and its numeric dates are whole seconds.
\<close>

fun digits :: "nat \<Rightarrow> string" where
  "digits n =
     (if n < 10 then [''0123456789'' ! n]
      else digits (n div 10) @ [''0123456789'' ! (n mod 10)])"

declare digits.simps [simp del]

definition digit_value :: "char \<Rightarrow> nat option" where
  "digit_value c = map_of (zip ''0123456789'' [0, 1, 2, 3, 4, 5, 6, 7, 8, 9]) c"

definition number :: "string \<Rightarrow> nat option" where
  "number s =
     (if s \<noteq> [] \<and> list_all (\<lambda>c. digit_value c \<noteq> None) s
      then Some (foldl (\<lambda>a c. 10 * a + the (digit_value c)) 0 s)
      else None)"

definition cut :: "char \<Rightarrow> string \<Rightarrow> (string \<times> string) option" where
  "cut c s =
     (if c \<in> set s
      then Some (takeWhile (\<lambda>x. x \<noteq> c) s, tl (dropWhile (\<lambda>x. x \<noteq> c) s))
      else None)"

definition demo_claims_text :: "Claims \<Rightarrow> string" where
  "demo_claims_text c =
     digits (Claims_UserID c) @ '',''
       @ (case Claims_ExpiresAt c of None \<Rightarrow> [] | Some e \<Rightarrow> digits (nat e))
       @ '','' @ Claims_Role c"

definition demo_claims_parse :: "string \<Rightarrow> Claims option" where
  "demo_claims_parse s =
     (case cut (CHR '','') s of
        None \<Rightarrow> None
      | Some (u, rest) \<Rightarrow>
          (case cut (CHR '','') rest of
             None \<Rightarrow> None
           | Some (e, role) \<Rightarrow>
               (case number u of
                  None \<Rightarrow> None
                | Some uid \<Rightarrow>
                    if e = [] then
                      Some \<lparr>Claims_UserID = uid, Claims_Role = role, Claims_ExpiresAt = None\<rparr>
                    else
                      (case number e of
                         None \<Rightarrow> None
                       | Some x \<Rightarrow>
                           Some \<lparr>Claims_UserID = uid, Claims_Role = role,
                                 Claims_ExpiresAt = Some (int x)\<rparr>))))"

definition demo_decode :: "string \<Rightarrow> compact_parts option" where
  "demo_decode s =
     (case cut (CHR ''.'') s of
        None \<Rightarrow> None
      | Some (a, rest) \<Rightarrow>
          (case cut (CHR ''.'') rest of
             None \<Rightarrow> None
           | Some (p, sig) \<Rightarrow>
               (case demo_claims_parse p of
                  None \<Rightarrow> None
                | Some c \<Rightarrow>
                    Some \<lparr>signing_input = a @ ''.'' @ p, alg = a, payload = c,
                          signature = sig\<rparr>)))"

definition demo_jwt :: jwt where
  "demo_jwt =
     \<lparr>hmac_sha256 = (\<lambda>key msg. key @ msg),
      signing_string = (\<lambda>a c. a @ ''.'' @ demo_claims_text c),
      compact = (\<lambda>sstr sig. sstr @ ''.'' @ sig),
      decode_compact = demo_decode,
      NewNumericDate = (\<lambda>t. (t div Second) * Second)\<rparr>"

text \<open>A store, a user and an environment to run the model on.\<close>

definition alice :: User where
  "alice = \<lparr>User_ID = 42, User_Username = ''alice'', User_Email = ''alice@example.org'',
            User_PasswordHash = ''$2a$hash'', User_Role = ''admin''\<rparr>"

definition demo_db :: DB where
  "demo_db =
     \<lparr>users = [alice],
      refresh_tokens =
        [\<lparr>RefreshToken_ID = 1, RefreshToken_UserID = 42, RefreshToken_Token = ''r-1'',
          RefreshToken_ExpiryDate = 1000 * Second\<rparr>,
         \<lparr>RefreshToken_ID = 2, RefreshToken_UserID = 7, RefreshToken_Token = ''r-orphan'',
          RefreshToken_ExpiryDate = 1000 * Second\<rparr>],
      api_keys =
        [\<lparr>ApiKey_Key = ''key-live'', ApiKey_UserID = 7, ApiKey_Client = ''billing'',
          ApiKey_Scope = ''read'', ApiKey_IsActive = True\<rparr>,
         \<lparr>ApiKey_Key = ''key-off'', ApiKey_UserID = 42, ApiKey_Client = ''legacy'',
          ApiKey_Scope = ''read'', ApiKey_IsActive = False\<rparr>]\<rparr>"

definition demo_env :: Env where
  "demo_env =
     \<lparr>SECRET_KEY = ''s3cret'', now_lookup = 10 * Second, now_access = 10 * Second,
      new_uuid = ''r-2'', now_refresh = 10 * Second\<rparr>"

definition bob :: User where
  "bob = \<lparr>User_ID = 7, User_Username = ''bob'', User_Email = ''bob@example.org'',
          User_PasswordHash = ''$2a$hash'', User_Role = ''user''\<rparr>"

definition orphan_row :: RefreshToken where
  "orphan_row = \<lparr>RefreshToken_ID = 2, RefreshToken_UserID = 7, RefreshToken_Token = ''r-orphan'',
          RefreshToken_ExpiryDate = 1000 * Second\<rparr>"

definition alice_row :: RefreshToken where
  "alice_row = \<lparr>RefreshToken_ID = 1, RefreshToken_UserID = 42, RefreshToken_Token = ''r-1'',
          RefreshToken_ExpiryDate = 1000 * Second\<rparr>"

text \<open>The access token the instance issues to \<open>alice\<close> at second 10, and one API-key row.\<close>

definition demo_access_token :: string where
  "demo_access_token = ''HS256.42,910000000000,admin.s3cretHS256.42,910000000000,admin''"

definition live_key :: ApiKey where
  "live_key = \<lparr>ApiKey_Key = ''key-live'', ApiKey_UserID = 7, ApiKey_Client = ''billing'',
          ApiKey_Scope = ''read'', ApiKey_IsActive = True\<rparr>"

text \<open>The claims and the decoded parts of that token.\<close>

definition demo_claims :: Claims where
  "demo_claims = \<lparr>Claims_UserID = 42, Claims_Role = ''admin'',
                  Claims_ExpiresAt = Some 910000000000\<rparr>"

definition demo_parts :: compact_parts where
  "demo_parts = \<lparr>signing_input = ''HS256.42,910000000000,admin'', alg = ''HS256'',
                 payload = demo_claims, signature = ''s3cretHS256.42,910000000000,admin''\<rparr>"

section \<open>Facts about the store and the codec\<close>

lemma filter_unique_key:
  "distinct (map f xs) \<Longrightarrow> r \<in> set xs \<Longrightarrow> P r \<Longrightarrow>
     filter (\<lambda>x. f x = f r \<and> P x) xs = [r]"
proof (induction xs)
  case Nil
  then show ?case by simp
next
  case (Cons x xs)
  show ?case
  proof (cases "x = r")
    case True
    have "f r \<notin> f ` set xs" using Cons.prems(1) True by simp
    then have "\<forall>x\<in>set xs. \<not> (f x = f r \<and> P x)"
      by (metis imageI)
    then have "filter (\<lambda>x. f x = f r \<and> P x) xs = []"
      by (rule filter_False)
    then show ?thesis using True Cons.prems(3) by simp
  next
    case False
    then have rin: "r \<in> set xs" using Cons.prems(2) by simp
    have "f x \<noteq> f r" using Cons.prems(1) rin by auto
    then show ?thesis using Cons.IH Cons.prems rin by simp
  qed
qed

lemma Where_token_First_sound:
  assumes "Where_token_First db tok now = Inr r"
  shows "r \<in> set (refresh_tokens db) \<and> RefreshToken_Token r = tok \<and> RefreshToken_ExpiryDate r > now"
proof -
  let ?m = "filter (\<lambda>r. RefreshToken_Token r = tok \<and> RefreshToken_ExpiryDate r > now) (refresh_tokens db)"
  obtain rest where "sort_key RefreshToken_ID ?m = r # rest"
    using assms by (auto simp: Where_token_First_def split: list.splits)
  then have "r \<in> set (sort_key RefreshToken_ID ?m)" by simp
  then have "r \<in> set ?m" by simp
  then show ?thesis by simp
qed

lemma Where_token_First_found:
  assumes "distinct (map RefreshToken_Token (refresh_tokens db))"
    and "r \<in> set (refresh_tokens db)" and "RefreshToken_ExpiryDate r > now"
  shows "Where_token_First db (RefreshToken_Token r) now = Inr r"
proof -
  have "filter (\<lambda>x. RefreshToken_Token x = RefreshToken_Token r \<and> RefreshToken_ExpiryDate x > now)
          (refresh_tokens db) = [r]"
    using filter_unique_key [OF assms(1) assms(2), of "\<lambda>x. RefreshToken_ExpiryDate x > now"] assms(3)
    by simp
  then show ?thesis by (simp add: Where_token_First_def)
qed

lemma Where_token_First_absent:
  assumes "tok \<notin> set (map RefreshToken_Token (refresh_tokens db))"
  shows "Where_token_First db tok now = Inl ErrRecordNotFound"
proof -
  have "filter (\<lambda>r. RefreshToken_Token r = tok \<and> RefreshToken_ExpiryDate r > now) (refresh_tokens db) = []"
    using assms by (auto simp: filter_empty_conv)
  then show ?thesis by (simp add: Where_token_First_def)
qed

lemma First_user_sound:
  assumes "First_user db uid = Inr u"
  shows "u \<in> set (users db) \<and> User_ID u = uid"
proof -
  obtain rest where "filter (\<lambda>u. User_ID u = uid) (users db) = u # rest"
    using assms by (auto simp: First_user_def split: list.splits)
  then have "u \<in> set (filter (\<lambda>u. User_ID u = uid) (users db))" by simp
  then show ?thesis by simp
qed

lemma GenerateAccessToken_succeeds:
  "\<exists>a. GenerateAccessToken lib secret now uid role = Inr a"
  by (simp add: GenerateAccessToken_def SignedString_def Let_def)

lemma Delete_removes_token:
  assumes "distinct (map RefreshToken_Token (refresh_tokens db))"
    and "t \<in> set (refresh_tokens db)" and "RefreshToken_ID t \<noteq> 0"
  shows "RefreshToken_Token t \<notin> set (map RefreshToken_Token (refresh_tokens (Delete_refresh_token db t)))"
proof
  assume "RefreshToken_Token t \<in> set (map RefreshToken_Token (refresh_tokens (Delete_refresh_token db t)))"
  then obtain r where r: "r \<in> set (refresh_tokens db)" "RefreshToken_ID r \<noteq> RefreshToken_ID t"
      "RefreshToken_Token r = RefreshToken_Token t"
    using assms(3) by (auto simp: Delete_refresh_token_def)
  have "inj_on RefreshToken_Token (set (refresh_tokens db))"
    using assms(1) by (simp add: distinct_map)
  then have "r = t" using r(1,3) assms(2) by (auto dest: inj_onD)
  then show False using r(2) by simp
qed

lemma Delete_tokens_subset:
  "set (refresh_tokens (Delete_refresh_token db t)) \<subseteq> set (refresh_tokens db)"
  by (auto simp: Delete_refresh_token_def)

lemma Delete_users [simp]: "users (Delete_refresh_token db t) = users db"
  by (simp add: Delete_refresh_token_def)

lemma GenerateAuthToken_created:
  assumes "new_uuid env \<notin> set (map RefreshToken_Token (refresh_tokens db))"
  shows "\<exists>a. GenerateAccessToken lib (SECRET_KEY env) (now_access env) (User_ID user) (User_Role user) = Inr a
           \<and> GenerateAuthToken lib env db user =
               (Inr (a, new_uuid env),
                db\<lparr>refresh_tokens := refresh_tokens db @
                     [\<lparr>RefreshToken_ID = next_id (refresh_tokens db), RefreshToken_UserID = User_ID user,
                       RefreshToken_Token = new_uuid env,
                       RefreshToken_ExpiryDate = now_refresh env + 30 * 24 * Hour\<rparr>]\<rparr>)"
proof -
  obtain a where a: "GenerateAccessToken lib (SECRET_KEY env) (now_access env) (User_ID user) (User_Role user) = Inr a"
    using GenerateAccessToken_succeeds by blast
  show ?thesis
    using a assms by (simp add: GenerateAuthToken_def Create_refresh_token_def Let_def)
qed

lemma Where_token_First_cong:
  "refresh_tokens db2 = refresh_tokens db \<Longrightarrow> Where_token_First db2 tok now = Where_token_First db tok now"
  by (simp add: Where_token_First_def)

lemma Where_key_First_found:
  assumes "distinct (map ApiKey_Key (api_keys db))"
    and "a \<in> set (api_keys db)" and "ApiKey_IsActive a"
  shows "Where_key_First db (ApiKey_Key a) = Inr a"
proof -
  have "filter (\<lambda>x. ApiKey_Key x = ApiKey_Key a \<and> ApiKey_IsActive x = True) (api_keys db) = [a]"
    using filter_unique_key [OF assms(1) assms(2), of "\<lambda>x. ApiKey_IsActive x = True"] assms(3)
    by simp
  then show ?thesis by (simp add: Where_key_First_def)
qed

lemma Where_key_First_none:
  assumes "\<forall>a\<in>set (api_keys db). ApiKey_Key a = k \<longrightarrow> \<not> ApiKey_IsActive a"
  shows "Where_key_First db k = Inl ErrRecordNotFound"
proof -
  have "\<forall>a\<in>set (api_keys db). \<not> (ApiKey_Key a = k \<and> ApiKey_IsActive a = True)"
    using assms by simp
  then have "filter (\<lambda>a. ApiKey_Key a = k \<and> ApiKey_IsActive a = True) (api_keys db) = []"
    by (rule filter_False)
  then show ?thesis by (simp add: Where_key_First_def)
qed

lemma ValidateJWT_Inr_iff:
  "ValidateJWT lib secret now s = Inr c \<longleftrightarrow>
     (\<exists>p. decode_compact lib s = Some p \<and> alg p = SigningMethodHS256
          \<and> signature p = hmac_sha256 lib secret (signing_input p)
          \<and> (\<forall>e. Claims_ExpiresAt (payload p) = Some e \<longrightarrow> \<not> now > e)
          \<and> c = payload p)"
  by (auto simp: ValidateJWT_def ParseWithClaims_def Let_def split: option.splits sum.splits if_splits)

lemma ValidateJWT_fails_iff:
  "(\<exists>err. ValidateJWT lib secret now s = Inl err) \<longleftrightarrow> (\<forall>c. ValidateJWT lib secret now s \<noteq> Inr c)"
  by (cases "ValidateJWT lib secret now s") auto

text \<open>The schema's constraints are kept by every statement that writes, hence by a whole
  refresh: a store that satisfies them at the start satisfies them ever after.\<close>

lemma fold_max_ge:
  "a \<le> fold max xs (a::nat)"
  and fold_max_ge_elem: "x \<in> set xs \<Longrightarrow> x \<le> fold max xs (a::nat)"
proof (induction xs arbitrary: a)
  case Nil
  { case 1 show ?case by simp }
  { case 2 then show ?case by simp }
next
  case (Cons y ys)
  { case 1
    have "a \<le> max y a" by simp
    also have "max y a \<le> fold max ys (max y a)" using Cons.IH(1) .
    finally show ?case by simp }
  { case 2
    show ?case
    proof (cases "x = y")
      case True
      have "x \<le> max y a" using True by simp
      also have "max y a \<le> fold max ys (max y a)" using Cons.IH(1) .
      finally show ?thesis by simp
    next
      case False
      then have "x \<in> set ys" using 2 by simp
      then show ?thesis using Cons.IH(2) by simp
    qed }
qed

lemma next_id_fresh:
  "next_id rows \<notin> set (map RefreshToken_ID rows)"
  and next_id_nonzero: "next_id rows \<noteq> 0"
proof -
  show "next_id rows \<notin> set (map RefreshToken_ID rows)"
  proof
    assume "next_id rows \<in> set (map RefreshToken_ID rows)"
    then have "next_id rows \<le> fold max (map RefreshToken_ID rows) 0" by (rule fold_max_ge_elem)
    then show False by (simp add: next_id_def)
  qed
  show "next_id rows \<noteq> 0" by (simp add: next_id_def)
qed

lemma schema_ok_Delete: "schema_ok db \<Longrightarrow> schema_ok (Delete_refresh_token db t)"
  by (auto simp: schema_ok_def Delete_refresh_token_def distinct_map_filter)

lemma schema_ok_GenerateAuthToken:
  assumes "schema_ok db"
  shows "schema_ok (snd (GenerateAuthToken lib env db user))"
proof (cases "Create_refresh_token db
          \<lparr>RefreshToken_ID = 0, RefreshToken_UserID = User_ID user,
           RefreshToken_Token = new_uuid env,
           RefreshToken_ExpiryDate = now_refresh env + 30 * 24 * Hour\<rparr>")
  case (Inl e)
  then show ?thesis using assms
    by (auto simp: GenerateAuthToken_def Let_def split: sum.splits)
next
  case (Inr db')
  then have "schema_ok db'"
    using assms next_id_fresh [of "refresh_tokens db"] next_id_nonzero [of "refresh_tokens db"]
    by (auto simp: Create_refresh_token_def schema_ok_def split: if_splits)
  then show ?thesis using Inr assms
    by (auto simp: GenerateAuthToken_def Let_def split: sum.splits)
qed

lemma schema_ok_RefreshAndRevokeToken:
  assumes "schema_ok db"
  shows "schema_ok (snd (RefreshAndRevokeToken lib env db tok))"
proof -
  have "schema_ok (snd (GenerateAuthToken lib env (Delete_refresh_token db t) u))" for t u
    using schema_ok_GenerateAuthToken [OF schema_ok_Delete [OF assms]] .
  then have "schema_ok db2" if "GenerateAuthToken lib env (Delete_refresh_token db t) u = (r, db2)"
    for t u r db2
    using that by (metis snd_conv)
  then show ?thesis using assms
    by (auto simp: RefreshAndRevokeToken_def Let_def split: sum.splits prod.splits)
qed

lemma SplitN_2:
  "SplitN s sep 2 =
     (if sep \<in> set s
      then [takeWhile (\<lambda>c. c \<noteq> sep) s, tl (dropWhile (\<lambda>c. c \<noteq> sep) s)]
      else [s])"
  by (simp add: numeral_2_eq_2)

lemmas run_defs =
  GenerateAccessToken_def SignedString_def NewWithClaims_def SigningMethodHS256_def
  ValidateJWT_def ParseWithClaims_def reads_back_def GenerateAuthToken_def RefreshAndRevokeToken_def
  RefreshTokenHandler_def AuthMiddleware_def
  Where_token_First_def First_user_def Delete_refresh_token_def Create_refresh_token_def
  Where_key_First_def next_id_def
  Second_def Minute_def Hour_def
  StatusOK_def StatusBadRequest_def StatusUnauthorized_def StatusInternalServerError_def
  EqualFold_def ToLower_def SplitN_2 Get_of_def isSpace_def Fields_def spec_bearer_header_def
  demo_jwt_def demo_decode_def demo_claims_parse_def demo_claims_text_def cut_def number_def
  digit_value_def digits.simps
  demo_access_token_def demo_claims_def demo_parts_def live_key_def alice_def bob_def orphan_row_def alice_row_def demo_db_def demo_env_def schema_ok_def Let_def

section \<open>Login\<close>

text \<open>
  C8. \<open>GenerateAuthToken\<close> (login): when the access token was issued and creating the
  refresh-token row fails, the call returns that error, no token, and leaves the store as
  it was; and whenever it does return an access token, the row of the refresh token it
  returns with it is in the store, bound to the same user.
\<close>

theorem login_fails_when_persisting_fails:
  "(\<forall>accessToken err.
      GenerateAccessToken lib (SECRET_KEY env) (now_access env) (User_ID user) (User_Role user)
        = Inr accessToken
      \<and> Create_refresh_token db
          \<lparr>RefreshToken_ID = 0, RefreshToken_UserID = User_ID user,
           RefreshToken_Token = new_uuid env,
           RefreshToken_ExpiryDate = now_refresh env + 30 * 24 * Hour\<rparr> = Inl err
      \<longrightarrow> GenerateAuthToken lib env db user = (Inl err, db))
   \<and> (\<forall>accessToken refreshToken db'.
        GenerateAuthToken lib env db user = (Inr (accessToken, refreshToken), db')
        \<longrightarrow> (\<exists>row \<in> set (refresh_tokens db').
               RefreshToken_Token row = refreshToken
               \<and> RefreshToken_UserID row = User_ID user
               \<and> RefreshToken_ExpiryDate row = now_refresh env + 30 * 24 * Hour))"
proof (intro conjI allI impI)
  fix accessToken err
  assume "GenerateAccessToken lib (SECRET_KEY env) (now_access env) (User_ID user) (User_Role user)
        = Inr accessToken
      \<and> Create_refresh_token db
          \<lparr>RefreshToken_ID = 0, RefreshToken_UserID = User_ID user,
           RefreshToken_Token = new_uuid env,
           RefreshToken_ExpiryDate = now_refresh env + 30 * 24 * Hour\<rparr> = Inl err"
  then show "GenerateAuthToken lib env db user = (Inl err, db)"
    by (simp add: GenerateAuthToken_def Let_def)
next
  fix accessToken refreshToken db'
  assume ok: "GenerateAuthToken lib env db user = (Inr (accessToken, refreshToken), db')"
  let ?row = "\<lparr>RefreshToken_ID = 0, RefreshToken_UserID = User_ID user,
           RefreshToken_Token = new_uuid env,
           RefreshToken_ExpiryDate = now_refresh env + 30 * 24 * Hour\<rparr>"
  from ok have cr: "Create_refresh_token db ?row = Inr db'" and rt: "refreshToken = new_uuid env"
    by (auto simp: GenerateAuthToken_def Let_def split: sum.splits)
  from cr have "refresh_tokens db' =
      refresh_tokens db @ [?row\<lparr>RefreshToken_ID := next_id (refresh_tokens db)\<rparr>]"
    by (auto simp: Create_refresh_token_def split: if_splits)
  then show "\<exists>row \<in> set (refresh_tokens db').
               RefreshToken_Token row = refreshToken
               \<and> RefreshToken_UserID row = User_ID user
               \<and> RefreshToken_ExpiryDate row = now_refresh env + 30 * 24 * Hour"
    using rt by simp
qed

theorem login_fails_when_persisting_fails_witness:
  "GenerateAccessToken demo_jwt (SECRET_KEY (demo_env\<lparr>new_uuid := ''r-1''\<rparr>))
       (now_access (demo_env\<lparr>new_uuid := ''r-1''\<rparr>)) (User_ID alice) (User_Role alice)
     = Inr ''HS256.42,910000000000,admin.s3cretHS256.42,910000000000,admin''
   \<and> Create_refresh_token demo_db
        \<lparr>RefreshToken_ID = 0, RefreshToken_UserID = User_ID alice,
         RefreshToken_Token = new_uuid (demo_env\<lparr>new_uuid := ''r-1''\<rparr>),
         RefreshToken_ExpiryDate = now_refresh (demo_env\<lparr>new_uuid := ''r-1''\<rparr>) + 30 * 24 * Hour\<rparr>
       = Inl ErrUniqueConstraint
   \<and> GenerateAuthToken demo_jwt (demo_env\<lparr>new_uuid := ''r-1''\<rparr>) demo_db alice
       = (Inl ErrUniqueConstraint, demo_db)
   \<and> fst (GenerateAuthToken demo_jwt demo_env demo_db alice)
       = Inr (''HS256.42,910000000000,admin.s3cretHS256.42,910000000000,admin'', ''r-2'')
   \<and> (\<exists>row \<in> set (refresh_tokens (snd (GenerateAuthToken demo_jwt demo_env demo_db alice))).
         RefreshToken_Token row = ''r-2'' \<and> RefreshToken_UserID row = 42)"
proof -
  let ?env = "demo_env\<lparr>new_uuid := ''r-1''\<rparr>"
  have a: "GenerateAccessToken demo_jwt (SECRET_KEY ?env) (now_access ?env) (User_ID alice) (User_Role alice)
     = Inr ''HS256.42,910000000000,admin.s3cretHS256.42,910000000000,admin''"
    by (simp add: run_defs)
  have c: "Create_refresh_token demo_db
        \<lparr>RefreshToken_ID = 0, RefreshToken_UserID = User_ID alice,
         RefreshToken_Token = new_uuid ?env,
         RefreshToken_ExpiryDate = now_refresh ?env + 30 * 24 * Hour\<rparr>
       = Inl ErrUniqueConstraint"
    by (simp add: run_defs)
  have f: "fst (GenerateAuthToken demo_jwt demo_env demo_db alice)
       = Inr (''HS256.42,910000000000,admin.s3cretHS256.42,910000000000,admin'', ''r-2'')"
    by (simp add: run_defs)
  obtain db' where g: "GenerateAuthToken demo_jwt demo_env demo_db alice
       = (Inr (''HS256.42,910000000000,admin.s3cretHS256.42,910000000000,admin'', ''r-2''), db')"
    using f by (cases "GenerateAuthToken demo_jwt demo_env demo_db alice") simp
  have ua: "User_ID alice = 42" by (simp add: alice_def)
  note th = login_fails_when_persisting_fails [of demo_jwt]
  from th [of ?env alice demo_db] a c
  have one: "GenerateAuthToken demo_jwt ?env demo_db alice = (Inl ErrUniqueConstraint, demo_db)"
    by blast
  from th [of demo_env alice demo_db] g ua
  have two: "\<exists>row \<in> set (refresh_tokens (snd (GenerateAuthToken demo_jwt demo_env demo_db alice))).
         RefreshToken_Token row = ''r-2'' \<and> RefreshToken_UserID row = 42"
    by fastforce
  show ?thesis using a c f one two by blast
qed

section \<open>Refresh\<close>

text \<open>
  C2. Two calls of \<open>RefreshAndRevokeToken\<close> in sequence with the same refresh-token value.
  In a store that satisfies its schema, when the value names an unexpired row, its owner
  exists and the new identifier is not already a token, the first call succeeds: it
  issues the access token for the user the row belongs to and returns the new refresh
  token. In the store it leaves, every later call with the old value, at whatever time and
  with whatever new identifier, fails with \<open>ErrRecordNotFound\<close> and changes nothing.
\<close>

theorem refresh_token_is_single_use:
  assumes schema: "schema_ok db"
    and found: "Where_token_First db tok (now_lookup env) = Inr oldToken"
    and owner: "First_user db (RefreshToken_UserID oldToken) = Inr user"
    and fresh: "new_uuid env \<notin> set (map RefreshToken_Token (refresh_tokens db))"
  shows "\<exists>a db1.
           RefreshAndRevokeToken lib env db tok = (Inr (a, new_uuid env), db1)
         \<and> GenerateAccessToken lib (SECRET_KEY env) (now_access env)
               (RefreshToken_UserID oldToken) (User_Role user) = Inr a
         \<and> User_ID user = RefreshToken_UserID oldToken
         \<and> (\<forall>env2. RefreshAndRevokeToken lib env2 db1 tok = (Inl ErrRecordNotFound, db1))"
proof -
  let ?db' = "Delete_refresh_token db oldToken"
  from found have old: "oldToken \<in> set (refresh_tokens db)" "RefreshToken_Token oldToken = tok"
    using Where_token_First_sound by blast+
  from schema have uniq: "distinct (map RefreshToken_Token (refresh_tokens db))"
    and nz: "0 \<notin> set (map RefreshToken_ID (refresh_tokens db))"
    by (simp_all add: schema_ok_def)
  from nz old(1) have idnz: "RefreshToken_ID oldToken \<noteq> 0" by (metis imageI set_map)
  have gone: "tok \<notin> set (map RefreshToken_Token (refresh_tokens ?db'))"
    using Delete_removes_token [OF uniq old(1) idnz] old(2) by simp
  have fresh': "new_uuid env \<notin> set (map RefreshToken_Token (refresh_tokens ?db'))"
    using fresh Delete_tokens_subset [of db oldToken] by auto
  have uid: "User_ID user = RefreshToken_UserID oldToken"
    using First_user_sound [OF owner] by simp
  let ?row = "\<lparr>RefreshToken_ID = next_id (refresh_tokens ?db'),
               RefreshToken_UserID = User_ID user, RefreshToken_Token = new_uuid env,
               RefreshToken_ExpiryDate = now_refresh env + 30 * 24 * Hour\<rparr>"
  let ?db1 = "?db'\<lparr>refresh_tokens := refresh_tokens ?db' @ [?row]\<rparr>"
  obtain a where a: "GenerateAccessToken lib (SECRET_KEY env) (now_access env)
                       (User_ID user) (User_Role user) = Inr a"
    and g: "GenerateAuthToken lib env ?db' user = (Inr (a, new_uuid env), ?db1)"
    using GenerateAuthToken_created [OF fresh', of lib user] by blast
  have run: "RefreshAndRevokeToken lib env db tok = (Inr (a, new_uuid env), ?db1)"
    using found owner g by (simp add: RefreshAndRevokeToken_def Let_def)
  have "tok \<noteq> new_uuid env" using fresh old by force
  then have absent: "tok \<notin> set (map RefreshToken_Token (refresh_tokens ?db1))"
    using gone by simp
  have second: "\<forall>env2. RefreshAndRevokeToken lib env2 ?db1 tok = (Inl ErrRecordNotFound, ?db1)"
    using Where_token_First_absent [OF absent] by (simp add: RefreshAndRevokeToken_def)
  show ?thesis using run a uid second by metis
qed

theorem refresh_token_is_single_use_witness:
  "schema_ok demo_db
   \<and> Where_token_First demo_db ''r-1'' (now_lookup demo_env) = Inr alice_row
   \<and> First_user demo_db (RefreshToken_UserID alice_row) = Inr alice
   \<and> new_uuid demo_env \<notin> set (map RefreshToken_Token (refresh_tokens demo_db))
   \<and> (\<exists>a db1.
         RefreshAndRevokeToken demo_jwt demo_env demo_db ''r-1'' = (Inr (a, ''r-2''), db1)
       \<and> GenerateAccessToken demo_jwt ''s3cret'' (10 * Second) 42 ''admin'' = Inr a
       \<and> (\<forall>env2. RefreshAndRevokeToken demo_jwt env2 db1 ''r-1'' = (Inl ErrRecordNotFound, db1)))"
proof -
  have h1: "schema_ok demo_db" by (simp add: run_defs)
  have h2: "Where_token_First demo_db ''r-1'' (now_lookup demo_env) = Inr alice_row"
    by (simp add: run_defs)
  have h3: "First_user demo_db (RefreshToken_UserID alice_row) = Inr alice"
    by (simp add: run_defs)
  have h4: "new_uuid demo_env \<notin> set (map RefreshToken_Token (refresh_tokens demo_db))"
    by (simp add: run_defs)
  have e: "SECRET_KEY demo_env = ''s3cret''" "now_access demo_env = 10 * Second"
      "new_uuid demo_env = ''r-2''" "RefreshToken_UserID alice_row = 42" "User_Role alice = ''admin''"
    by (simp_all add: demo_env_def alice_row_def alice_def)
  from refresh_token_is_single_use [OF h1 h2 h3 h4, of demo_jwt]
  have "\<exists>a db1.
         RefreshAndRevokeToken demo_jwt demo_env demo_db ''r-1'' = (Inr (a, ''r-2''), db1)
       \<and> GenerateAccessToken demo_jwt ''s3cret'' (10 * Second) 42 ''admin'' = Inr a
       \<and> (\<forall>env2. RefreshAndRevokeToken demo_jwt env2 db1 ''r-1'' = (Inl ErrRecordNotFound, db1))"
    unfolding e by blast
  then show ?thesis using h1 h2 h3 h4 by blast
qed

text \<open>
  C10. When the refresh-token row is found and the lookup of its user fails,
  \<open>RefreshAndRevokeToken\<close> returns that error with the store exactly as it was: the
  row is not deleted. A later call with the same value, before the row expires and once
  the user can be found, succeeds.
\<close>

theorem refresh_keeps_token_when_user_lookup_fails:
  assumes found: "Where_token_First db tok (now_lookup env) = Inr oldToken"
    and nouser: "First_user db (RefreshToken_UserID oldToken) = Inl err"
    and uniq: "distinct (map RefreshToken_Token (refresh_tokens db))"
  shows "RefreshAndRevokeToken lib env db tok = (Inl err, db)
     \<and> (\<forall>env2 db2 u.
          refresh_tokens db2 = refresh_tokens (snd (RefreshAndRevokeToken lib env db tok))
          \<and> now_lookup env2 < RefreshToken_ExpiryDate oldToken
          \<and> First_user db2 (RefreshToken_UserID oldToken) = Inr u
          \<and> new_uuid env2 \<notin> set (map RefreshToken_Token (refresh_tokens db2))
          \<longrightarrow> (\<exists>a. fst (RefreshAndRevokeToken lib env2 db2 tok) = Inr (a, new_uuid env2)))"
proof (intro conjI allI impI)
  show first: "RefreshAndRevokeToken lib env db tok = (Inl err, db)"
    using found nouser by (simp add: RefreshAndRevokeToken_def)
  fix env2 :: Env and db2 :: DB and u :: User
  assume later:
    "refresh_tokens db2 = refresh_tokens (snd (RefreshAndRevokeToken lib env db tok))
     \<and> now_lookup env2 < RefreshToken_ExpiryDate oldToken
     \<and> First_user db2 (RefreshToken_UserID oldToken) = Inr u
     \<and> new_uuid env2 \<notin> set (map RefreshToken_Token (refresh_tokens db2))"
  then have same: "refresh_tokens db2 = refresh_tokens db" using first by simp
  from found have old: "oldToken \<in> set (refresh_tokens db)" "RefreshToken_Token oldToken = tok"
    using Where_token_First_sound by blast+
  have "Where_token_First db tok (now_lookup env2) = Inr oldToken"
    using Where_token_First_found [OF uniq old(1)] later old(2) by blast
  then have again: "Where_token_First db2 tok (now_lookup env2) = Inr oldToken"
    using Where_token_First_cong [OF same] by simp
  have fresh: "new_uuid env2 \<notin>
      set (map RefreshToken_Token (refresh_tokens (Delete_refresh_token db2 oldToken)))"
    using later Delete_tokens_subset [of db2 oldToken] by auto
  obtain a where
    "GenerateAuthToken lib env2 (Delete_refresh_token db2 oldToken) u =
       (Inr (a, new_uuid env2),
        (Delete_refresh_token db2 oldToken)\<lparr>refresh_tokens :=
           refresh_tokens (Delete_refresh_token db2 oldToken) @
             [\<lparr>RefreshToken_ID = next_id (refresh_tokens (Delete_refresh_token db2 oldToken)),
               RefreshToken_UserID = User_ID u, RefreshToken_Token = new_uuid env2,
               RefreshToken_ExpiryDate = now_refresh env2 + 30 * 24 * Hour\<rparr>]\<rparr>)"
    using GenerateAuthToken_created [OF fresh, of lib u] by blast
  then have "fst (RefreshAndRevokeToken lib env2 db2 tok) = Inr (a, new_uuid env2)"
    using again later by (simp add: RefreshAndRevokeToken_def Let_def)
  then show "\<exists>a. fst (RefreshAndRevokeToken lib env2 db2 tok) = Inr (a, new_uuid env2)" ..
qed

theorem refresh_keeps_token_when_user_lookup_fails_witness:
  "Where_token_First demo_db ''r-orphan'' (now_lookup demo_env) = Inr orphan_row
   \<and> First_user demo_db (RefreshToken_UserID orphan_row) = Inl ErrRecordNotFound
   \<and> distinct (map RefreshToken_Token (refresh_tokens demo_db))
   \<and> RefreshAndRevokeToken demo_jwt demo_env demo_db ''r-orphan'' = (Inl ErrRecordNotFound, demo_db)
   \<and> First_user (demo_db\<lparr>users := [alice, bob]\<rparr>) (RefreshToken_UserID orphan_row) = Inr bob
   \<and> (\<exists>a. fst (RefreshAndRevokeToken demo_jwt demo_env (demo_db\<lparr>users := [alice, bob]\<rparr>) ''r-orphan'')
            = Inr (a, ''r-2''))"
proof -
  have h1: "Where_token_First demo_db ''r-orphan'' (now_lookup demo_env) = Inr orphan_row"
    by (simp add: run_defs)
  have h2: "First_user demo_db (RefreshToken_UserID orphan_row) = Inl ErrRecordNotFound"
    by (simp add: run_defs)
  have h3: "distinct (map RefreshToken_Token (refresh_tokens demo_db))"
    by (simp add: run_defs)
  note th = refresh_keeps_token_when_user_lookup_fails [OF h1 h2 h3, of demo_jwt]
  from th have one: "RefreshAndRevokeToken demo_jwt demo_env demo_db ''r-orphan'' = (Inl ErrRecordNotFound, demo_db)"
    by blast
  have h4: "First_user (demo_db\<lparr>users := [alice, bob]\<rparr>) (RefreshToken_UserID orphan_row) = Inr bob"
    by (simp add: run_defs)
  have pre: "refresh_tokens (demo_db\<lparr>users := [alice, bob]\<rparr>)
               = refresh_tokens (snd (RefreshAndRevokeToken demo_jwt demo_env demo_db ''r-orphan''))
          \<and> now_lookup demo_env < RefreshToken_ExpiryDate orphan_row
          \<and> First_user (demo_db\<lparr>users := [alice, bob]\<rparr>) (RefreshToken_UserID orphan_row) = Inr bob
          \<and> new_uuid demo_env \<notin> set (map RefreshToken_Token (refresh_tokens (demo_db\<lparr>users := [alice, bob]\<rparr>)))"
    using one h4 by (simp add: run_defs)
  have nu: "new_uuid demo_env = ''r-2''" by (simp add: demo_env_def)
  from th pre have "\<exists>a. fst (RefreshAndRevokeToken demo_jwt demo_env (demo_db\<lparr>users := [alice, bob]\<rparr>) ''r-orphan'')
            = Inr (a, new_uuid demo_env)"
    by blast
  then have two: "\<exists>a. fst (RefreshAndRevokeToken demo_jwt demo_env (demo_db\<lparr>users := [alice, bob]\<rparr>) ''r-orphan'')
            = Inr (a, ''r-2'')"
    using nu by simp
  show ?thesis using h1 h2 h3 one h4 two by blast
qed

text \<open>
  C7, as the code has it. The claim says a failure to resolve the owner is reported as an
  internal error distinct from the failure to consume the token. It is not: for a token
  whose owner is missing the service returns the very error, and the handler the very
  response, that they return for a token that does not exist.
\<close>

theorem refresh_conflates_user_lookup_failure:
  "Where_token_First demo_db ''r-orphan'' (now_lookup demo_env) = Inr orphan_row
   \<and> First_user demo_db (RefreshToken_UserID orphan_row) = Inl ErrRecordNotFound
   \<and> Where_token_First demo_db ''no-such-token'' (now_lookup demo_env) = Inl ErrRecordNotFound
   \<and> RefreshAndRevokeToken demo_jwt demo_env demo_db ''r-orphan''
       = RefreshAndRevokeToken demo_jwt demo_env demo_db ''no-such-token''
   \<and> RefreshTokenHandler demo_jwt demo_env demo_db ''r-orphan''
       = RefreshTokenHandler demo_jwt demo_env demo_db ''no-such-token''
   \<and> RefreshTokenHandler demo_jwt demo_env demo_db ''r-orphan''
       = (Response 401 (ErrorBody ''Invalid or expired refresh token''), demo_db)"
  by (simp add: run_defs)

text \<open>
  C7, amended. For a non-empty refresh-token value, \<open>RefreshTokenHandler\<close> answers every
  failure of the flow with the one response 401 ``Invalid or expired refresh token'':
  a failure to find the token row, a failure to find its owner, and any other error
  \<open>RefreshAndRevokeToken\<close> returns.
\<close>

theorem refresh_failures_share_one_answer:
  assumes "refreshToken \<noteq> []"
  shows "(\<forall>err. Where_token_First db refreshToken (now_lookup env) = Inl err
            \<longrightarrow> RefreshTokenHandler lib env db refreshToken =
                  (Response StatusUnauthorized (ErrorBody ''Invalid or expired refresh token''), db))
       \<and> (\<forall>oldToken err.
            Where_token_First db refreshToken (now_lookup env) = Inr oldToken
            \<and> First_user db (RefreshToken_UserID oldToken) = Inl err
            \<longrightarrow> RefreshTokenHandler lib env db refreshToken =
                  (Response StatusUnauthorized (ErrorBody ''Invalid or expired refresh token''), db))
       \<and> (\<forall>err. fst (RefreshAndRevokeToken lib env db refreshToken) = Inl err
            \<longrightarrow> fst (RefreshTokenHandler lib env db refreshToken) =
                  Response StatusUnauthorized (ErrorBody ''Invalid or expired refresh token''))"
  using assms
  by (auto simp: RefreshTokenHandler_def RefreshAndRevokeToken_def split: prod.splits sum.splits)

theorem refresh_failures_share_one_answer_witness:
  "''r-orphan'' \<noteq> []
   \<and> Where_token_First demo_db ''r-orphan'' (now_lookup demo_env) = Inr orphan_row
   \<and> First_user demo_db (RefreshToken_UserID orphan_row) = Inl ErrRecordNotFound
   \<and> RefreshTokenHandler demo_jwt demo_env demo_db ''r-orphan'' =
        (Response StatusUnauthorized (ErrorBody ''Invalid or expired refresh token''), demo_db)"
proof -
  have h0: "''r-orphan'' \<noteq> []" by simp
  have h1: "Where_token_First demo_db ''r-orphan'' (now_lookup demo_env) = Inr orphan_row"
    by (simp add: run_defs)
  have h2: "First_user demo_db (RefreshToken_UserID orphan_row) = Inl ErrRecordNotFound"
    by (simp add: run_defs)
  from refresh_failures_share_one_answer [OF h0, of demo_db demo_env demo_jwt] h1 h2
  have "RefreshTokenHandler demo_jwt demo_env demo_db ''r-orphan'' =
        (Response StatusUnauthorized (ErrorBody ''Invalid or expired refresh token''), demo_db)"
    by blast
  then show ?thesis using h0 h1 h2 by blast
qed

section \<open>Dispatch\<close>

text \<open>
  C4. A request whose \<open>Authorization\<close> header is present (\<open>c.Get\<close> returns a non-empty
  value) is decided by that header alone: the outcome is the same whatever the
  \<open>api-key\<close> header and whatever the store holds, and when the request goes on to the
  next handler, the user id and the role it carries are those of the claims that
  \<open>ValidateJWT\<close> returned for the bearer token, with the authentication type JWT.
\<close>

theorem authorization_header_takes_precedence:
  assumes "Get ''Authorization'' \<noteq> []" and "Get' ''Authorization'' = Get ''Authorization''"
  shows "AuthMiddleware lib secret now db Get = AuthMiddleware lib secret now db' Get'
       \<and> (\<forall>locals. AuthMiddleware lib secret now db Get = Next locals \<longrightarrow>
            (\<exists>claims.
               ValidateJWT lib secret now (SplitN (Get ''Authorization'') (CHR '' '') 2 ! 1)
                 = Inr claims
             \<and> locals = [(''userID'', UintLocal (Claims_UserID claims)),
                         (''role'', StringLocal (Claims_Role claims)),
                         (''authType'', StringLocal ''JWT'')]))"
  using assms
  by (auto simp: AuthMiddleware_def Let_def split: sum.splits if_splits)

theorem authorization_header_takes_precedence_witness:
  "Get_of [(''Authorization'', ''Bearer '' @ demo_access_token), (''api-key'', ''key-live'')]
      ''Authorization'' \<noteq> []
   \<and> Get_of [(''Authorization'', ''Bearer '' @ demo_access_token)] ''Authorization''
       = Get_of [(''Authorization'', ''Bearer '' @ demo_access_token), (''api-key'', ''key-live'')]
           ''Authorization''
   \<and> AuthMiddleware demo_jwt ''s3cret'' (20 * Second) demo_db
        (Get_of [(''Authorization'', ''Bearer '' @ demo_access_token), (''api-key'', ''key-live'')])
       = AuthMiddleware demo_jwt ''s3cret'' (20 * Second) (demo_db\<lparr>api_keys := []\<rparr>)
           (Get_of [(''Authorization'', ''Bearer '' @ demo_access_token)])
   \<and> AuthMiddleware demo_jwt ''s3cret'' (20 * Second) demo_db
        (Get_of [(''Authorization'', ''Bearer '' @ demo_access_token), (''api-key'', ''key-live'')])
       = Next [(''userID'', UintLocal 42), (''role'', StringLocal ''admin''),
               (''authType'', StringLocal ''JWT'')]
   \<and> AuthMiddleware demo_jwt ''s3cret'' (20 * Second) demo_db (Get_of [(''api-key'', ''key-live'')])
       = Next [(''clientID'', StringLocal ''billing''), (''scope'', StringLocal ''read''),
               (''userID'', UintLocal 7), (''authType'', StringLocal ''APIKey'')]"
proof -
  let ?both = "Get_of [(''Authorization'', ''Bearer '' @ demo_access_token), (''api-key'', ''key-live'')]"
  let ?auth = "Get_of [(''Authorization'', ''Bearer '' @ demo_access_token)]"
  have h1: "?both ''Authorization'' \<noteq> []" by (simp add: Get_of_def)
  have h2: "?auth ''Authorization'' = ?both ''Authorization''" by (simp add: Get_of_def)
  from authorization_header_takes_precedence
         [where Get = ?both and Get' = ?auth and lib = demo_jwt and secret = "''s3cret''"
            and now = "20 * Second" and db = demo_db and db' = "demo_db\<lparr>api_keys := []\<rparr>",
          OF h1 h2]
  have same: "AuthMiddleware demo_jwt ''s3cret'' (20 * Second) demo_db ?both
       = AuthMiddleware demo_jwt ''s3cret'' (20 * Second) (demo_db\<lparr>api_keys := []\<rparr>) ?auth"
    by blast
  have jwt: "AuthMiddleware demo_jwt ''s3cret'' (20 * Second) demo_db ?both
       = Next [(''userID'', UintLocal 42), (''role'', StringLocal ''admin''),
               (''authType'', StringLocal ''JWT'')]"
    by (simp add: run_defs)
  have key: "AuthMiddleware demo_jwt ''s3cret'' (20 * Second) demo_db (Get_of [(''api-key'', ''key-live'')])
       = Next [(''clientID'', StringLocal ''billing''), (''scope'', StringLocal ''read''),
               (''userID'', UintLocal 7), (''authType'', StringLocal ''APIKey'')]"
    by (simp add: run_defs)
  show ?thesis using h1 h2 same jwt key by blast
qed

text \<open>
  C5, as the code has it. The claim takes a header to be well formed when it consists of
  exactly two whitespace-separated tokens. The header ``Bearer a b'' has three, and the
  code does not reject it as malformed: it hands ``a b'' to token verification. The header
  ``Bearer'', two spaces, ``x'' has two, and the code hands over not ``x'' but `` x'',
  with the second space in front.
\<close>

theorem three_field_header_is_not_malformed:
  "Fields ''Bearer a b'' = [''Bearer'', ''a'', ''b'']
   \<and> \<not> spec_bearer_header ''Bearer a b''
   \<and> AuthMiddleware demo_jwt ''s3cret'' 0 demo_db (Get_of [(''Authorization'', ''Bearer a b'')])
       \<noteq> Answer (Response StatusUnauthorized
                    (ErrorBody ''Invalid or malformed Authorization header''))
   \<and> SplitN ''Bearer a b'' (CHR '' '') 2 ! 1 = ''a b''
   \<and> AuthMiddleware demo_jwt ''s3cret'' 0 demo_db (Get_of [(''Authorization'', ''Bearer a b'')])
       = Answer (Response StatusUnauthorized (ErrorBody ''Invalid or expired JWT''))
   \<and> spec_bearer_header ''Bearer  x''
   \<and> Fields ''Bearer  x'' = [''Bearer'', ''x'']
   \<and> SplitN ''Bearer  x'' (CHR '' '') 2 ! 1 = '' x''"
  by (simp add: run_defs)

text \<open>
  C5, amended. A present \<open>Authorization\<close> header is rejected as malformed exactly when it
  has no space character or the text before its first space is not ``Bearer'' up to
  case; otherwise everything after the first space, and nothing else, is handed to
  \<open>ValidateJWT\<close>, whose outcome decides the request.
\<close>

theorem bearer_header_split_at_first_space:
  assumes "Get ''Authorization'' = h" and "h \<noteq> []"
  shows "((AuthMiddleware lib secret now db Get =
            Answer (Response StatusUnauthorized
                      (ErrorBody ''Invalid or malformed Authorization header'')))
          = (CHR '' '' \<notin> set h
             \<or> \<not> EqualFold (takeWhile (\<lambda>c. c \<noteq> CHR '' '') h) ''Bearer''))
       \<and> (CHR '' '' \<in> set h \<and> EqualFold (takeWhile (\<lambda>c. c \<noteq> CHR '' '') h) ''Bearer'' \<longrightarrow>
            AuthMiddleware lib secret now db Get =
              (case ValidateJWT lib secret now (tl (dropWhile (\<lambda>c. c \<noteq> CHR '' '') h)) of
                 Inl err \<Rightarrow>
                   Answer (Response StatusUnauthorized (ErrorBody ''Invalid or expired JWT''))
               | Inr claims \<Rightarrow>
                   Next [(''userID'', UintLocal (Claims_UserID claims)),
                         (''role'', StringLocal (Claims_Role claims)),
                         (''authType'', StringLocal ''JWT'')]))"
  using assms
  by (auto simp: AuthMiddleware_def SplitN_2 Let_def split: sum.splits)

theorem bearer_header_split_at_first_space_witness:
  "Get_of [(''Authorization'', ''bearer '' @ demo_access_token)] ''Authorization''
      = ''bearer '' @ demo_access_token
   \<and> ''bearer '' @ demo_access_token \<noteq> []
   \<and> CHR '' '' \<in> set (''bearer '' @ demo_access_token)
   \<and> EqualFold (takeWhile (\<lambda>c. c \<noteq> CHR '' '') (''bearer '' @ demo_access_token)) ''Bearer''
   \<and> tl (dropWhile (\<lambda>c. c \<noteq> CHR '' '') (''bearer '' @ demo_access_token)) = demo_access_token
   \<and> ValidateJWT demo_jwt ''s3cret'' (20 * Second) demo_access_token
       = Inr \<lparr>Claims_UserID = 42, Claims_Role = ''admin'', Claims_ExpiresAt = Some 910000000000\<rparr>
   \<and> AuthMiddleware demo_jwt ''s3cret'' (20 * Second) demo_db
        (Get_of [(''Authorization'', ''bearer '' @ demo_access_token)])
       = Next [(''userID'', UintLocal 42), (''role'', StringLocal ''admin''),
               (''authType'', StringLocal ''JWT'')]"
proof -
  let ?h = "''bearer '' @ demo_access_token"
  have h1: "Get_of [(''Authorization'', ?h)] ''Authorization'' = ?h" by (simp add: Get_of_def)
  have h2: "?h \<noteq> []" by simp
  have h3: "CHR '' '' \<in> set ?h" by simp
  have h4: "EqualFold (takeWhile (\<lambda>c. c \<noteq> CHR '' '') ?h) ''Bearer''" by (simp add: run_defs)
  have h5: "tl (dropWhile (\<lambda>c. c \<noteq> CHR '' '') ?h) = demo_access_token" by simp
  have v: "ValidateJWT demo_jwt ''s3cret'' (20 * Second) demo_access_token
       = Inr \<lparr>Claims_UserID = 42, Claims_Role = ''admin'', Claims_ExpiresAt = Some 910000000000\<rparr>"
    by (simp add: run_defs)
  from bearer_header_split_at_first_space
         [where Get = "Get_of [(''Authorization'', ?h)]" and h = ?h and lib = demo_jwt
            and secret = "''s3cret''" and now = "20 * Second" and db = demo_db,
          OF h1 h2] h3 h4
  have "AuthMiddleware demo_jwt ''s3cret'' (20 * Second) demo_db (Get_of [(''Authorization'', ?h)])
      = (case ValidateJWT demo_jwt ''s3cret'' (20 * Second) (tl (dropWhile (\<lambda>c. c \<noteq> CHR '' '') ?h)) of
                 Inl err \<Rightarrow>
                   Answer (Response StatusUnauthorized (ErrorBody ''Invalid or expired JWT''))
               | Inr claims \<Rightarrow>
                   Next [(''userID'', UintLocal (Claims_UserID claims)),
                         (''role'', StringLocal (Claims_Role claims)),
                         (''authType'', StringLocal ''JWT'')])"
    by blast
  then have r: "AuthMiddleware demo_jwt ''s3cret'' (20 * Second) demo_db (Get_of [(''Authorization'', ?h)])
       = Next [(''userID'', UintLocal 42), (''role'', StringLocal ''admin''),
               (''authType'', StringLocal ''JWT'')]"
    using h5 v by simp
  show ?thesis using h1 h2 h3 h4 h5 v r by blast
qed

text \<open>
  C9. A request with no \<open>Authorization\<close> header and a non-empty \<open>api-key\<close> header, over a
  store whose keys are unique (the primary key): when a row with that exact key is active,
  the lookup returns that row and the request goes on with its client, scope and user id;
  when no row with that key is active, whether the key is there but inactive or was never
  created, the lookup returns \<open>ErrRecordNotFound\<close> and the answer is the same 401. The
  request goes on exactly when an active row with the key exists.
\<close>

theorem api_key_lookup_active_only:
  assumes "Get ''Authorization'' = []" and "Get ''api-key'' = k" and "k \<noteq> []"
    and "distinct (map ApiKey_Key (api_keys db))"
  shows "(\<forall>a\<in>set (api_keys db). ApiKey_Key a = k \<and> ApiKey_IsActive a \<longrightarrow>
            Where_key_First db k = Inr a
          \<and> AuthMiddleware lib secret now db Get =
              Next [(''clientID'', StringLocal (ApiKey_Client a)),
                    (''scope'', StringLocal (ApiKey_Scope a)),
                    (''userID'', UintLocal (ApiKey_UserID a)),
                    (''authType'', StringLocal ''APIKey'')])
       \<and> ((\<forall>a\<in>set (api_keys db). ApiKey_Key a = k \<longrightarrow> \<not> ApiKey_IsActive a) \<longrightarrow>
            Where_key_First db k = Inl ErrRecordNotFound
          \<and> AuthMiddleware lib secret now db Get =
              Answer (Response StatusUnauthorized (ErrorBody ''Invalid or inactive API key'')))
       \<and> ((\<exists>locals. AuthMiddleware lib secret now db Get = Next locals)
            = (\<exists>a\<in>set (api_keys db). ApiKey_Key a = k \<and> ApiKey_IsActive a))"
proof -
  have found: "Where_key_First db k = Inr a
          \<and> AuthMiddleware lib secret now db Get =
              Next [(''clientID'', StringLocal (ApiKey_Client a)),
                    (''scope'', StringLocal (ApiKey_Scope a)),
                    (''userID'', UintLocal (ApiKey_UserID a)),
                    (''authType'', StringLocal ''APIKey'')]"
    if "a \<in> set (api_keys db)" "ApiKey_Key a = k" "ApiKey_IsActive a" for a
  proof -
    have "Where_key_First db k = Inr a"
      using Where_key_First_found [OF assms(4) that(1) that(3)] that(2) by simp
    then show ?thesis using assms(1,2,3) by (simp add: AuthMiddleware_def)
  qed
  have none: "Where_key_First db k = Inl ErrRecordNotFound
          \<and> AuthMiddleware lib secret now db Get =
              Answer (Response StatusUnauthorized (ErrorBody ''Invalid or inactive API key''))"
    if "\<forall>a\<in>set (api_keys db). ApiKey_Key a = k \<longrightarrow> \<not> ApiKey_IsActive a"
  proof -
    have "Where_key_First db k = Inl ErrRecordNotFound"
      using Where_key_First_none [OF that] .
    then show ?thesis using assms(1,2,3) by (simp add: AuthMiddleware_def)
  qed
  have iff: "(\<exists>locals. AuthMiddleware lib secret now db Get = Next locals)
            = (\<exists>a\<in>set (api_keys db). ApiKey_Key a = k \<and> ApiKey_IsActive a)"
  proof (cases "\<exists>a\<in>set (api_keys db). ApiKey_Key a = k \<and> ApiKey_IsActive a")
    case True
    then show ?thesis using found by blast
  next
    case False
    then have "\<forall>a\<in>set (api_keys db). ApiKey_Key a = k \<longrightarrow> \<not> ApiKey_IsActive a" by blast
    from none [OF this] False show ?thesis by simp
  qed
  show ?thesis using found none iff by blast
qed

theorem api_key_lookup_active_only_witness:
  "Get_of [(''api-key'', ''key-live'')] ''Authorization'' = []
   \<and> Get_of [(''api-key'', ''key-live'')] ''api-key'' = ''key-live''
   \<and> ''key-live'' \<noteq> []
   \<and> distinct (map ApiKey_Key (api_keys demo_db))
   \<and> live_key \<in> set (api_keys demo_db) \<and> ApiKey_Key live_key = ''key-live''
   \<and> ApiKey_IsActive live_key
   \<and> AuthMiddleware demo_jwt ''s3cret'' 0 demo_db (Get_of [(''api-key'', ''key-live'')])
       = Next [(''clientID'', StringLocal ''billing''), (''scope'', StringLocal ''read''),
               (''userID'', UintLocal 7), (''authType'', StringLocal ''APIKey'')]
   \<and> AuthMiddleware demo_jwt ''s3cret'' 0 demo_db (Get_of [(''api-key'', ''key-off'')])
       = Answer (Response StatusUnauthorized (ErrorBody ''Invalid or inactive API key''))
   \<and> AuthMiddleware demo_jwt ''s3cret'' 0 demo_db (Get_of [(''api-key'', ''key-never-made'')])
       = Answer (Response StatusUnauthorized (ErrorBody ''Invalid or inactive API key''))"
proof -
  have d: "distinct (map ApiKey_Key (api_keys demo_db))" by (simp add: run_defs)
  have l: "live_key \<in> set (api_keys demo_db)" "ApiKey_Key live_key = ''key-live''"
      "ApiKey_IsActive live_key" "ApiKey_Client live_key = ''billing''"
      "ApiKey_Scope live_key = ''read''" "ApiKey_UserID live_key = 7"
    by (simp_all add: run_defs)
  have g: "Get_of [(''api-key'', k)] ''Authorization'' = []" "Get_of [(''api-key'', k)] ''api-key'' = k"
    for k by (simp_all add: Get_of_def)
  have n: "''key-live'' \<noteq> []" "''key-off'' \<noteq> []" "''key-never-made'' \<noteq> []" by simp_all
  from api_key_lookup_active_only
         [where Get = "Get_of [(''api-key'', ''key-live'')]" and k = "''key-live''" and db = demo_db
            and lib = demo_jwt and secret = "''s3cret''" and now = 0,
          OF g(1) g(2) n(1) d] l
  have one: "AuthMiddleware demo_jwt ''s3cret'' 0 demo_db (Get_of [(''api-key'', ''key-live'')])
       = Next [(''clientID'', StringLocal ''billing''), (''scope'', StringLocal ''read''),
               (''userID'', UintLocal 7), (''authType'', StringLocal ''APIKey'')]"
    by metis
  have off: "\<forall>a\<in>set (api_keys demo_db). ApiKey_Key a = ''key-off'' \<longrightarrow> \<not> ApiKey_IsActive a"
    by (simp add: run_defs)
  from api_key_lookup_active_only
         [where Get = "Get_of [(''api-key'', ''key-off'')]" and k = "''key-off''" and db = demo_db
            and lib = demo_jwt and secret = "''s3cret''" and now = 0,
          OF g(1) g(2) n(2) d] off
  have two: "AuthMiddleware demo_jwt ''s3cret'' 0 demo_db (Get_of [(''api-key'', ''key-off'')])
       = Answer (Response StatusUnauthorized (ErrorBody ''Invalid or inactive API key''))"
    by blast
  have never: "\<forall>a\<in>set (api_keys demo_db). ApiKey_Key a = ''key-never-made'' \<longrightarrow> \<not> ApiKey_IsActive a"
    by (simp add: run_defs)
  from api_key_lookup_active_only
         [where Get = "Get_of [(''api-key'', ''key-never-made'')]" and k = "''key-never-made''" and db = demo_db
            and lib = demo_jwt and secret = "''s3cret''" and now = 0,
          OF g(1) g(2) n(3) d] never
  have three: "AuthMiddleware demo_jwt ''s3cret'' 0 demo_db (Get_of [(''api-key'', ''key-never-made'')])
       = Answer (Response StatusUnauthorized (ErrorBody ''Invalid or inactive API key''))"
    by blast
  show ?thesis using g n d l one two three by simp
qed

section \<open>Issue and verify\<close>

text \<open>
  C1. For every user id and role: the token \<open>GenerateAccessToken\<close> returns, given to
  \<open>ValidateJWT\<close> under the same secret at a time before the expiry the token carries,
  verifies, and the claims returned hold exactly that user id and that role. The library
  is any whose decoder reads back the token it wrote for these claims.
\<close>

theorem verify_after_issue:
  assumes "reads_back lib secret
             \<lparr>Claims_UserID = uid, Claims_Role = role,
              Claims_ExpiresAt = Some (NewNumericDate lib (now + 15 * Minute))\<rparr>"
    and "now' < NewNumericDate lib (now + 15 * Minute)"
  shows "\<exists>tok claims.
           GenerateAccessToken lib secret now uid role = Inr tok
         \<and> ValidateJWT lib secret now' tok = Inr claims
         \<and> Claims_UserID claims = uid \<and> Claims_Role claims = role"
proof -
  let ?c = "\<lparr>Claims_UserID = uid, Claims_Role = role,
              Claims_ExpiresAt = Some (NewNumericDate lib (now + 15 * Minute))\<rparr>"
  let ?sstr = "signing_string lib SigningMethodHS256 ?c"
  let ?tok = "compact lib ?sstr (hmac_sha256 lib secret ?sstr)"
  have issue: "GenerateAccessToken lib secret now uid role = Inr ?tok"
    by (simp add: GenerateAccessToken_def SignedString_def NewWithClaims_def Let_def)
  have dec: "decode_compact lib ?tok =
           Some \<lparr>signing_input = ?sstr, alg = SigningMethodHS256, payload = ?c,
                 signature = hmac_sha256 lib secret ?sstr\<rparr>"
    using assms(1) by (simp add: reads_back_def Let_def)
  have "ValidateJWT lib secret now' ?tok = Inr ?c"
    unfolding ValidateJWT_Inr_iff using dec assms(2) by simp
  then show ?thesis using issue by auto
qed

theorem verify_after_issue_witness:
  "reads_back demo_jwt ''s3cret''
     \<lparr>Claims_UserID = 42, Claims_Role = ''admin'',
      Claims_ExpiresAt = Some (NewNumericDate demo_jwt (10 * Second + 15 * Minute))\<rparr>
   \<and> 20 * Second < NewNumericDate demo_jwt (10 * Second + 15 * Minute)
   \<and> GenerateAccessToken demo_jwt ''s3cret'' (10 * Second) 42 ''admin'' = Inr demo_access_token
   \<and> (\<exists>tok claims.
         GenerateAccessToken demo_jwt ''s3cret'' (10 * Second) 42 ''admin'' = Inr tok
       \<and> ValidateJWT demo_jwt ''s3cret'' (20 * Second) tok = Inr claims
       \<and> Claims_UserID claims = 42 \<and> Claims_Role claims = ''admin'')"
proof -
  have h1: "reads_back demo_jwt ''s3cret''
     \<lparr>Claims_UserID = 42, Claims_Role = ''admin'',
      Claims_ExpiresAt = Some (NewNumericDate demo_jwt (10 * Second + 15 * Minute))\<rparr>"
    by (simp add: run_defs)
  have h2: "20 * Second < NewNumericDate demo_jwt (10 * Second + 15 * Minute)"
    by (simp add: run_defs)
  have g: "GenerateAccessToken demo_jwt ''s3cret'' (10 * Second) 42 ''admin'' = Inr demo_access_token"
    by (simp add: run_defs)
  from verify_after_issue [OF h1 h2] h1 h2 g show ?thesis by blast
qed

text \<open>
  C6. \<open>ValidateJWT\<close> returns an error, and no claims, for: a token that decodes to the
  parts of a token that verified, with one byte of the signature replaced by a different
  byte; a token that decodes to those parts with the signed bytes and the payload altered
  and the signature kept, when the MAC of the altered bytes is not the MAC of the
  original ones (no function onto a fixed length excludes that for every input: it is the
  assumption on HMAC-SHA256 that the claim rests on); and a token presented at any time
  after its \<open>ExpiresAt\<close>, one second after included. Whatever the error, the middleware
  answers with the one 401 ``Invalid or expired JWT''.
\<close>

theorem verify_rejects_tampered_and_expired:
  "(\<forall>p c now0 i b.
      decode_compact lib s = Some p \<and> ValidateJWT lib secret now0 s = Inr c
      \<and> i < length (signature p) \<and> b \<noteq> signature p ! i
      \<and> decode_compact lib s' = Some (p\<lparr>signature := (signature p)[i := b]\<rparr>)
      \<longrightarrow> (\<exists>err. ValidateJWT lib secret now s' = Inl err))
   \<and> (\<forall>p c now0 m' c'.
      decode_compact lib s = Some p \<and> ValidateJWT lib secret now0 s = Inr c
      \<and> m' \<noteq> signing_input p
      \<and> hmac_sha256 lib secret m' \<noteq> hmac_sha256 lib secret (signing_input p)
      \<and> decode_compact lib s' = Some (p\<lparr>signing_input := m', payload := c'\<rparr>)
      \<longrightarrow> (\<exists>err. ValidateJWT lib secret now s' = Inl err))
   \<and> (\<forall>p e.
      decode_compact lib s = Some p \<and> Claims_ExpiresAt (payload p) = Some e \<and> now > e
      \<longrightarrow> (\<exists>err. ValidateJWT lib secret now s = Inl err))
   \<and> (\<forall>p e.
      decode_compact lib s = Some p \<and> Claims_ExpiresAt (payload p) = Some e
      \<longrightarrow> (\<exists>err. ValidateJWT lib secret (e + Second) s = Inl err))
   \<and> (\<forall>err db Get.
      ValidateJWT lib secret now s = Inl err \<and> Get ''Authorization'' = ''Bearer '' @ s
      \<longrightarrow> AuthMiddleware lib secret now db Get =
            Answer (Response StatusUnauthorized (ErrorBody ''Invalid or expired JWT'')))"
proof (intro conjI allI impI)
  fix p :: compact_parts and c :: Claims and now0 :: time and i :: nat and b :: char
  assume a: "decode_compact lib s = Some p \<and> ValidateJWT lib secret now0 s = Inr c
      \<and> i < length (signature p) \<and> b \<noteq> signature p ! i
      \<and> decode_compact lib s' = Some (p\<lparr>signature := (signature p)[i := b]\<rparr>)"
  then have good: "signature p = hmac_sha256 lib secret (signing_input p)"
    by (auto simp: ValidateJWT_Inr_iff)
  have "(signature p)[i := b] ! i = b" using a by simp
  then have "(signature p)[i := b] \<noteq> signature p" using a by metis
  then have "\<forall>c. ValidateJWT lib secret now s' \<noteq> Inr c"
    using a good by (auto simp: ValidateJWT_Inr_iff)
  then show "\<exists>err. ValidateJWT lib secret now s' = Inl err"
    by (simp add: ValidateJWT_fails_iff)
next
  fix p :: compact_parts and c :: Claims and now0 :: time and m' :: string and c' :: Claims
  assume a: "decode_compact lib s = Some p \<and> ValidateJWT lib secret now0 s = Inr c
      \<and> m' \<noteq> signing_input p
      \<and> hmac_sha256 lib secret m' \<noteq> hmac_sha256 lib secret (signing_input p)
      \<and> decode_compact lib s' = Some (p\<lparr>signing_input := m', payload := c'\<rparr>)"
  then have good: "signature p = hmac_sha256 lib secret (signing_input p)"
    by (auto simp: ValidateJWT_Inr_iff)
  have "\<forall>c. ValidateJWT lib secret now s' \<noteq> Inr c"
    using a good by (auto simp: ValidateJWT_Inr_iff)
  then show "\<exists>err. ValidateJWT lib secret now s' = Inl err"
    by (simp add: ValidateJWT_fails_iff)
next
  fix p :: compact_parts and e :: time
  assume a: "decode_compact lib s = Some p \<and> Claims_ExpiresAt (payload p) = Some e \<and> now > e"
  then have "\<forall>c. ValidateJWT lib secret now s \<noteq> Inr c"
    by (auto simp: ValidateJWT_Inr_iff)
  then show "\<exists>err. ValidateJWT lib secret now s = Inl err"
    by (simp add: ValidateJWT_fails_iff)
next
  fix p :: compact_parts and e :: time
  assume a: "decode_compact lib s = Some p \<and> Claims_ExpiresAt (payload p) = Some e"
  have "e + Second > e" by (simp add: Second_def)
  then have "\<forall>c. ValidateJWT lib secret (e + Second) s \<noteq> Inr c"
    using a by (auto simp: ValidateJWT_Inr_iff)
  then show "\<exists>err. ValidateJWT lib secret (e + Second) s = Inl err"
    by (simp add: ValidateJWT_fails_iff)
next
  fix err :: error and db :: DB and Get :: "string \<Rightarrow> string"
  assume a: "ValidateJWT lib secret now s = Inl err \<and> Get ''Authorization'' = ''Bearer '' @ s"
  then show "AuthMiddleware lib secret now db Get =
            Answer (Response StatusUnauthorized (ErrorBody ''Invalid or expired JWT''))"
    by (simp add: AuthMiddleware_def SplitN_2 EqualFold_def Let_def)
qed

theorem verify_rejects_tampered_and_expired_witness:
  "decode_compact demo_jwt demo_access_token = Some demo_parts
   \<and> ValidateJWT demo_jwt ''s3cret'' (20 * Second) demo_access_token = Inr demo_claims
   \<and> 0 < length (signature demo_parts) \<and> CHR ''x'' \<noteq> signature demo_parts ! 0
   \<and> decode_compact demo_jwt ''HS256.42,910000000000,admin.x3cretHS256.42,910000000000,admin''
       = Some (demo_parts\<lparr>signature := (signature demo_parts)[0 := CHR ''x'']\<rparr>)
   \<and> (\<exists>err. ValidateJWT demo_jwt ''s3cret'' (20 * Second)
               ''HS256.42,910000000000,admin.x3cretHS256.42,910000000000,admin'' = Inl err)
   \<and> ''HS256.43,910000000000,admin'' \<noteq> signing_input demo_parts
   \<and> hmac_sha256 demo_jwt ''s3cret'' ''HS256.43,910000000000,admin''
       \<noteq> hmac_sha256 demo_jwt ''s3cret'' (signing_input demo_parts)
   \<and> decode_compact demo_jwt ''HS256.43,910000000000,admin.s3cretHS256.42,910000000000,admin''
       = Some (demo_parts\<lparr>signing_input := ''HS256.43,910000000000,admin'',
                           payload := demo_claims\<lparr>Claims_UserID := 43\<rparr>\<rparr>)
   \<and> (\<exists>err. ValidateJWT demo_jwt ''s3cret'' (20 * Second)
               ''HS256.43,910000000000,admin.s3cretHS256.42,910000000000,admin'' = Inl err)
   \<and> Claims_ExpiresAt (payload demo_parts) = Some 910000000000
   \<and> (\<exists>err. ValidateJWT demo_jwt ''s3cret'' (910000000000 + Second) demo_access_token = Inl err)
   \<and> ValidateJWT demo_jwt ''s3cret'' (910000000000 + Second) demo_access_token = Inl ErrTokenExpired
   \<and> AuthMiddleware demo_jwt ''s3cret'' (910000000000 + Second) demo_db
        (Get_of [(''Authorization'', ''Bearer '' @ demo_access_token)])
       = Answer (Response StatusUnauthorized (ErrorBody ''Invalid or expired JWT''))"
proof -
  let ?s1 = "''HS256.42,910000000000,admin.x3cretHS256.42,910000000000,admin''"
  let ?s2 = "''HS256.43,910000000000,admin.s3cretHS256.42,910000000000,admin''"
  let ?late = "910000000000 + Second"
  have d0: "decode_compact demo_jwt demo_access_token = Some demo_parts"
    by (simp add: run_defs)
  have v0: "ValidateJWT demo_jwt ''s3cret'' (20 * Second) demo_access_token = Inr demo_claims"
    by (simp add: run_defs)
  have f1: "0 < length (signature demo_parts)" "CHR ''x'' \<noteq> signature demo_parts ! 0"
    by (simp_all add: run_defs)
  have d1: "decode_compact demo_jwt ?s1
       = Some (demo_parts\<lparr>signature := (signature demo_parts)[0 := CHR ''x'']\<rparr>)"
    by (simp add: run_defs)
  have f2: "''HS256.43,910000000000,admin'' \<noteq> signing_input demo_parts"
      "hmac_sha256 demo_jwt ''s3cret'' ''HS256.43,910000000000,admin''
        \<noteq> hmac_sha256 demo_jwt ''s3cret'' (signing_input demo_parts)"
    by (simp_all add: run_defs)
  have d2: "decode_compact demo_jwt ?s2
       = Some (demo_parts\<lparr>signing_input := ''HS256.43,910000000000,admin'',
                           payload := demo_claims\<lparr>Claims_UserID := 43\<rparr>\<rparr>)"
    by (simp add: run_defs)
  have e: "Claims_ExpiresAt (payload demo_parts) = Some 910000000000"
    by (simp add: run_defs)
  have x: "ValidateJWT demo_jwt ''s3cret'' ?late demo_access_token = Inl ErrTokenExpired"
    by (simp add: run_defs)
  have g: "Get_of [(''Authorization'', ''Bearer '' @ demo_access_token)] ''Authorization''
             = ''Bearer '' @ demo_access_token"
    by (simp add: Get_of_def)
  note sig = verify_rejects_tampered_and_expired
      [where lib = demo_jwt and secret = "''s3cret''" and now = "20 * Second"
         and s = demo_access_token and s' = ?s1]
  note pay = verify_rejects_tampered_and_expired
      [where lib = demo_jwt and secret = "''s3cret''" and now = "20 * Second"
         and s = demo_access_token and s' = ?s2]
  note exp = verify_rejects_tampered_and_expired
      [where lib = demo_jwt and secret = "''s3cret''" and now = ?late
         and s = demo_access_token and s' = ?s2]
  from sig d0 v0 f1 d1
  have r1: "\<exists>err. ValidateJWT demo_jwt ''s3cret'' (20 * Second) ?s1 = Inl err" by blast
  from pay d0 v0 f2 d2
  have r2: "\<exists>err. ValidateJWT demo_jwt ''s3cret'' (20 * Second) ?s2 = Inl err" by blast
  from exp d0 e
  have r3: "\<exists>err. ValidateJWT demo_jwt ''s3cret'' ?late demo_access_token = Inl err" by blast
  from exp x g
  have r4: "AuthMiddleware demo_jwt ''s3cret'' ?late demo_db
        (Get_of [(''Authorization'', ''Bearer '' @ demo_access_token)])
       = Answer (Response StatusUnauthorized (ErrorBody ''Invalid or expired JWT''))"
    by blast
  show ?thesis using d0 v0 f1 d1 r1 f2 d2 r2 e r3 x r4 by blast
qed

section \<open>Two refresh requests at once\<close>

text \<open>
  The statement-by-statement reading is the function: a request whose four statements run
  with nothing in between ends with what \<open>RefreshAndRevokeToken\<close> returns, in the store
  it leaves.
\<close>

lemma run_alone_is_the_function:
  "run_two lib envA envB old [ReqA, ReqA, ReqA, ReqA] (AtLookup, pcB, db) =
     (Returned (fst (RefreshAndRevokeToken lib envA db old)), pcB,
      snd (RefreshAndRevokeToken lib envA db old))"
  by (auto simp: RefreshAndRevokeToken_def Let_def split: sum.splits prod.splits)

text \<open>
  C3. The claim is that of two concurrent calls with the same still valid value exactly
  one succeeds. The code does not keep it: the lookup and the delete are separate
  statements. When both requests look the row up before either deletes it, both find it,
  both delete it (the second delete removes nothing) and both issue: each returns an
  access token and a refresh token of its own, and the store ends with two new rows for
  the one consumed. Run one after the other, the second request fails.
\<close>

theorem concurrent_refresh_both_succeed:
  "Where_token_First demo_db ''r-1'' (now_lookup demo_env) = Inr alice_row
   \<and> run_two demo_jwt demo_env (demo_env\<lparr>new_uuid := ''r-3''\<rparr>) ''r-1''
        [ReqA, ReqB, ReqA, ReqB, ReqA, ReqB, ReqA, ReqB] (AtLookup, AtLookup, demo_db)
       = (Returned (Inr (demo_access_token, ''r-2'')),
          Returned (Inr (demo_access_token, ''r-3'')),
          demo_db\<lparr>refresh_tokens :=
                    [orphan_row,
                     \<lparr>RefreshToken_ID = 3, RefreshToken_UserID = 42,
                      RefreshToken_Token = ''r-2'',
                      RefreshToken_ExpiryDate = 10 * Second + 30 * 24 * Hour\<rparr>,
                     \<lparr>RefreshToken_ID = 4, RefreshToken_UserID = 42,
                      RefreshToken_Token = ''r-3'',
                      RefreshToken_ExpiryDate = 10 * Second + 30 * 24 * Hour\<rparr>]\<rparr>)
   \<and> fst (snd (run_two demo_jwt demo_env (demo_env\<lparr>new_uuid := ''r-3''\<rparr>) ''r-1''
        [ReqA, ReqA, ReqA, ReqA, ReqB, ReqB, ReqB, ReqB] (AtLookup, AtLookup, demo_db)))
       = Returned (Inl ErrRecordNotFound)"
  by (simp add: run_defs del: set_filter)

end
